theory Spec2Isabelle
  imports Main
begin

section \<open>Merge request dependencies: the three operations of the service\<close>

text \<open>
  The file \<^verbatim>\<open>merge_request_dependencies.go\<close> binds three operations of the GitLab API
  (create, delete and list the merge requests that block a merge request) to the shared
  client. Each operation normalises the project identifier, builds a path with
  \<^verbatim>\<open>fmt.Sprintf\<close>, asks the client for a request and lets the client execute it.

  The client (\<^verbatim>\<open>NewRequest\<close>, \<^verbatim>\<open>Do\<close>) and the package functions \<^verbatim>\<open>parseID\<close> and
  \<^verbatim>\<open>PathEscape\<close> are declared elsewhere in the package. The operations take them as
  parameters: a record of the two package functions and the service with its client.
  The client talks to the network, so its two methods thread a world \<open>'w\<close>, and every
  operation also returns the list of client calls it made, in order.
\<close>

subsection \<open>Values of the Go program\<close>

text \<open>
  Go's \<^verbatim>\<open>int\<close> is modelled by \<open>int\<close>, which has all its values: the operations only
  print an \<^verbatim>\<open>int\<close>, and the decoder below checks that a number fits its 64 bits. A pointer
  that may be \<^verbatim>\<open>nil\<close> is an \<open>option\<close>, and so is the \<^verbatim>\<open>error\<close> interface (\<open>None\<close> is \<^verbatim>\<open>nil\<close>).
  A slice is a \<open>list option\<close>: \<open>None\<close> is the \<^verbatim>\<open>nil\<close> slice, \<open>Some []\<close> an empty one.
\<close>

text \<open>The verb \<^verbatim>\<open>%d\<close> of \<^verbatim>\<open>fmt.Sprintf\<close>: the decimal digits, after a minus sign when negative.\<close>

fun digits :: "nat \<Rightarrow> string" where
  "digits n =
     (if n < 10 then [''0123456789'' ! n]
      else digits (n div 10) @ [''0123456789'' ! (n mod 10)])"

declare digits.simps [simp del]

definition fmt_d :: "int \<Rightarrow> string" where
  "fmt_d i = (if i < 0 then CHR ''-'' # digits (nat (- i)) else digits (nat i))"

text \<open>The constants \<^verbatim>\<open>http.MethodPost\<close>, \<^verbatim>\<open>http.MethodDelete\<close> and \<^verbatim>\<open>http.MethodGet\<close>.\<close>

definition MethodPost :: string where
  "MethodPost = ''POST''"

definition MethodDelete :: string where
  "MethodDelete = ''DELETE''"

definition MethodGet :: string where
  "MethodGet = ''GET''"

text \<open>\<^verbatim>\<open>CreateMergeRequestDependencyOptions\<close>: the one field of the options struct.\<close>

record CreateMergeRequestDependencyOptions =
  BlockingMergeRequestID :: int

subsection \<open>The collaborators, as parameters\<close>

text \<open>
  \<^verbatim>\<open>parseID(pid)\<close> returns a string and an error; the operations use the string only when
  the error is \<^verbatim>\<open>nil\<close>, so the result is a sum with the error on the left. The identifier
  has the type \<^verbatim>\<open>interface{}\<close>: any type \<open>'pid\<close>.
\<close>

record ('pid, 'err) package_functions =
  parseID :: "'pid \<Rightarrow> 'err + string"
  PathEscape :: "string \<Rightarrow> string"

text \<open>
  \<^verbatim>\<open>NewRequest(method, path, opt, options)\<close> returns a request or an error. Its third
  argument is \<^verbatim>\<open>nil\<close> or the options struct of the create operation.
  \<^verbatim>\<open>Do(req, v)\<close> returns a response pointer and an error, and may store what it decoded
  through \<open>v\<close>. Its second argument is \<open>None\<close> for \<^verbatim>\<open>nil\<close> and \<open>Some x\<close> for a pointer to a
  variable that holds \<open>x\<close>; the third component of its result is the value it stored
  through \<open>v\<close>, or \<open>None\<close> when it stored nothing and the variable keeps what it held.
\<close>

record ('rof, 'req, 'resp, 'err, 'v, 'w) Client =
  NewRequest :: "string \<Rightarrow> string \<Rightarrow> CreateMergeRequestDependencyOptions option \<Rightarrow> 'rof list
                   \<Rightarrow> 'w \<Rightarrow> ('err + 'req) \<times> 'w"
  Do :: "'req \<Rightarrow> 'v option \<Rightarrow> 'w \<Rightarrow> ('resp option \<times> 'err option \<times> 'v option) \<times> 'w"

record ('rof, 'req, 'resp, 'err, 'v, 'w) MergeRequestDependenciesService =
  client :: "('rof, 'req, 'resp, 'err, 'v, 'w) Client"

text \<open>A call of the client, as the operations make it.\<close>

datatype ('rof, 'req, 'v) client_call =
  NewRequest_call string string "CreateMergeRequestDependencyOptions option" "'rof list"
| Do_call 'req "'v option"

subsection \<open>The operations\<close>

text \<open>
  Each operation returns its Go results, the client calls it made and the world it
  leaves. The last conditional of the create and delete operations is kept as the source
  has it: both branches return \<^verbatim>\<open>resp, err\<close>.
\<close>

definition CreateMergeRequestDependency ::
  "('pid, 'err) package_functions \<Rightarrow> ('rof, 'req, 'resp, 'err, 'v, 'w) MergeRequestDependenciesService
    \<Rightarrow> 'pid \<Rightarrow> int \<Rightarrow> CreateMergeRequestDependencyOptions \<Rightarrow> 'rof list \<Rightarrow> 'w
    \<Rightarrow> ('resp option \<times> 'err option) \<times> ('rof, 'req, 'v) client_call list \<times> 'w" where
  "CreateMergeRequestDependency pkg s pid mergeRequest opts options w =
     (case parseID pkg pid of
        Inl err \<Rightarrow> ((None, Some err), [], w)
      | Inr project \<Rightarrow>
          (let u = ''projects/'' @ PathEscape pkg project @ ''/merge_requests/''
                     @ fmt_d mergeRequest @ ''/blocks''
           in case NewRequest (client s) MethodPost u (Some opts) options w of
                (Inl err, w1) \<Rightarrow>
                  ((None, Some err), [NewRequest_call MethodPost u (Some opts) options], w1)
              | (Inr req, w1) \<Rightarrow>
                  (case Do (client s) req None w1 of
                     ((resp, err, _), w2) \<Rightarrow>
                       (if err \<noteq> None then (resp, err) else (resp, err),
                        [NewRequest_call MethodPost u (Some opts) options, Do_call req None],
                        w2))))"

definition DeleteMergeRequestDependency ::
  "('pid, 'err) package_functions \<Rightarrow> ('rof, 'req, 'resp, 'err, 'v, 'w) MergeRequestDependenciesService
    \<Rightarrow> 'pid \<Rightarrow> int \<Rightarrow> int \<Rightarrow> 'rof list \<Rightarrow> 'w
    \<Rightarrow> ('resp option \<times> 'err option) \<times> ('rof, 'req, 'v) client_call list \<times> 'w" where
  "DeleteMergeRequestDependency pkg s pid mergeRequest blockingMergeRequest options w =
     (case parseID pkg pid of
        Inl err \<Rightarrow> ((None, Some err), [], w)
      | Inr project \<Rightarrow>
          (let u = ''projects/'' @ PathEscape pkg project @ ''/merge_requests/''
                     @ fmt_d mergeRequest @ ''/blocks/'' @ fmt_d blockingMergeRequest
           in case NewRequest (client s) MethodDelete u None options w of
                (Inl err, w1) \<Rightarrow>
                  ((None, Some err), [NewRequest_call MethodDelete u None options], w1)
              | (Inr req, w1) \<Rightarrow>
                  (case Do (client s) req None w1 of
                     ((resp, err, _), w2) \<Rightarrow>
                       (if err \<noteq> None then (resp, err) else (resp, err),
                        [NewRequest_call MethodDelete u None options, Do_call req None],
                        w2))))"

text \<open>
  The list operation declares \<^verbatim>\<open>var mrd []MergeRequestDependency\<close>, a \<^verbatim>\<open>nil\<close> slice, and
  hands \<^verbatim>\<open>&mrd\<close> to \<^verbatim>\<open>Do\<close>. The element type plays no part in the operation.
\<close>

definition GetMergeRequestDependencies ::
  "('pid, 'err) package_functions
    \<Rightarrow> ('rof, 'req, 'resp, 'err, 'd list option, 'w) MergeRequestDependenciesService
    \<Rightarrow> 'pid \<Rightarrow> int \<Rightarrow> 'rof list \<Rightarrow> 'w
    \<Rightarrow> ('d list option \<times> 'resp option \<times> 'err option)
        \<times> ('rof, 'req, 'd list option) client_call list \<times> 'w" where
  "GetMergeRequestDependencies pkg s pid mergeRequest options w =
     (case parseID pkg pid of
        Inl err \<Rightarrow> ((None, None, Some err), [], w)
      | Inr project \<Rightarrow>
          (let u = ''projects/'' @ PathEscape pkg project @ ''/merge_requests/''
                     @ fmt_d mergeRequest @ ''/blocks''
           in case NewRequest (client s) MethodGet u None options w of
                (Inl err, w1) \<Rightarrow>
                  ((None, None, Some err), [NewRequest_call MethodGet u None options], w1)
              | (Inr req, w1) \<Rightarrow>
                  (case Do (client s) req (Some None) w1 of
                     ((resp, err, stored), w2) \<Rightarrow>
                       (let mrd = (case stored of None \<Rightarrow> None | Some x \<Rightarrow> x)
                        in if err \<noteq> None then (None, resp, err) else (mrd, resp, err),
                        [NewRequest_call MethodGet u None options, Do_call req (Some None)],
                        w2))))"

subsection \<open>The create and delete operations without the last conditional\<close>

text \<open>
  The specification reads the end of the create and delete operations as
  \<^verbatim>\<open>return s.client.Do(req, nil)\<close>: the result of the last call, returned unchanged. These
  two definitions follow that reading and are compared with the operations above.
\<close>

definition CreateMergeRequestDependency_direct ::
  "('pid, 'err) package_functions \<Rightarrow> ('rof, 'req, 'resp, 'err, 'v, 'w) MergeRequestDependenciesService
    \<Rightarrow> 'pid \<Rightarrow> int \<Rightarrow> CreateMergeRequestDependencyOptions \<Rightarrow> 'rof list \<Rightarrow> 'w
    \<Rightarrow> ('resp option \<times> 'err option) \<times> ('rof, 'req, 'v) client_call list \<times> 'w" where
  "CreateMergeRequestDependency_direct pkg s pid mergeRequest opts options w =
     (case parseID pkg pid of
        Inl err \<Rightarrow> ((None, Some err), [], w)
      | Inr project \<Rightarrow>
          (let u = ''projects/'' @ PathEscape pkg project @ ''/merge_requests/''
                     @ fmt_d mergeRequest @ ''/blocks''
           in case NewRequest (client s) MethodPost u (Some opts) options w of
                (Inl err, w1) \<Rightarrow>
                  ((None, Some err), [NewRequest_call MethodPost u (Some opts) options], w1)
              | (Inr req, w1) \<Rightarrow>
                  (case Do (client s) req None w1 of
                     ((resp, err, _), w2) \<Rightarrow>
                       ((resp, err),
                        [NewRequest_call MethodPost u (Some opts) options, Do_call req None],
                        w2))))"

definition DeleteMergeRequestDependency_direct ::
  "('pid, 'err) package_functions \<Rightarrow> ('rof, 'req, 'resp, 'err, 'v, 'w) MergeRequestDependenciesService
    \<Rightarrow> 'pid \<Rightarrow> int \<Rightarrow> int \<Rightarrow> 'rof list \<Rightarrow> 'w
    \<Rightarrow> ('resp option \<times> 'err option) \<times> ('rof, 'req, 'v) client_call list \<times> 'w" where
  "DeleteMergeRequestDependency_direct pkg s pid mergeRequest blockingMergeRequest options w =
     (case parseID pkg pid of
        Inl err \<Rightarrow> ((None, Some err), [], w)
      | Inr project \<Rightarrow>
          (let u = ''projects/'' @ PathEscape pkg project @ ''/merge_requests/''
                     @ fmt_d mergeRequest @ ''/blocks/'' @ fmt_d blockingMergeRequest
           in case NewRequest (client s) MethodDelete u None options w of
                (Inl err, w1) \<Rightarrow>
                  ((None, Some err), [NewRequest_call MethodDelete u None options], w1)
              | (Inr req, w1) \<Rightarrow>
                  (case Do (client s) req None w1 of
                     ((resp, err, _), w2) \<Rightarrow>
                       ((resp, err),
                        [NewRequest_call MethodDelete u None options, Do_call req None],
                        w2))))"

section \<open>The records of the response and their JSON form\<close>

subsection \<open>JSON values\<close>

text \<open>
  A JSON document as \<^verbatim>\<open>encoding/json\<close> reads it. Every number of the structs below is a
  Go \<^verbatim>\<open>int\<close>, so a number is an integer literal (a literal with a fraction or an exponent,
  which no field accepts, has no value here). An object is the list of its members in
  the order of the text.
\<close>

datatype json =
  JNull
| JBool bool
| JNumber int
| JString string
| JArray "json list"
| JObject "(string \<times> json) list"

datatype json_error = UnmarshalTypeError | UnmarshalerError

text \<open>Continue with the stored value unless decoding failed.\<close>

definition store :: "'e + 'a \<Rightarrow> ('a \<Rightarrow> 'b) \<Rightarrow> 'e + 'b" where
  "store d f = (case d of Inl e \<Rightarrow> Inl e | Inr x \<Rightarrow> Inr (f x))"

fun collect :: "('e + 'a) list \<Rightarrow> 'e + 'a list" where
  "collect [] = Inr []"
| "collect (d # ds) =
     (case d of
        Inl e \<Rightarrow> Inl e
      | Inr x \<Rightarrow> (case collect ds of Inl e \<Rightarrow> Inl e | Inr xs \<Rightarrow> Inr (x # xs)))"

subsection \<open>Serialising the options of the create operation\<close>

text \<open>
  The field of \<^verbatim>\<open>CreateMergeRequestDependencyOptions\<close> carries the tags
  \<^verbatim>\<open>url:"blocking_merge_request_id,omitempty"\<close> and
  \<^verbatim>\<open>json:"blocking_merge_request_id,omitempty"\<close>. With \<^verbatim>\<open>omitempty\<close> both encoders leave a
  field out when it holds the zero value of its type; otherwise the JSON encoder writes
  the number and the query encoder its decimal digits.
\<close>

definition json_CreateMergeRequestDependencyOptions ::
  "CreateMergeRequestDependencyOptions \<Rightarrow> json" where
  "json_CreateMergeRequestDependencyOptions opts =
     JObject (if BlockingMergeRequestID opts = 0 then []
              else [(''blocking_merge_request_id'', JNumber (BlockingMergeRequestID opts))])"

definition query_CreateMergeRequestDependencyOptions ::
  "CreateMergeRequestDependencyOptions \<Rightarrow> (string \<times> string) list" where
  "query_CreateMergeRequestDependencyOptions opts =
     (if BlockingMergeRequestID opts = 0 then []
      else [(''blocking_merge_request_id'', fmt_d (BlockingMergeRequestID opts))])"

text \<open>The member of a JSON object with a given name, when the value is an object that has one.\<close>

definition object_member :: "string \<Rightarrow> json \<Rightarrow> json option" where
  "object_member k v = (case v of JObject kvs \<Rightarrow> map_of kvs k | _ \<Rightarrow> None)"

subsection \<open>The structs\<close>

text \<open>
  \<^verbatim>\<open>BlockingMergeRequest\<close>, field by field. The structs \<^verbatim>\<open>BasicUser\<close>, \<^verbatim>\<open>LabelOptions\<close>,
  \<^verbatim>\<open>IssueReferences\<close>, \<^verbatim>\<open>TimeStats\<close> and \<^verbatim>\<open>TasksCompletionStatus\<close> are declared in other
  files of the package and \<^verbatim>\<open>time.Time\<close> in the standard library: they are the type
  parameters \<open>'user\<close>, \<open>'labels\<close>, \<open>'refs\<close>, \<open>'tstats\<close>, \<open>'tcs\<close> and \<open>'time\<close>.
\<close>

record ('user, 'labels, 'refs, 'tstats, 'tcs, 'time) BlockingMergeRequest =
  ID :: int
  Iid :: int
  TargetBranch :: string
  SourceBranch :: string
  ProjectID :: int
  Title :: string
  State :: string
  CreatedAt :: 'time
  UpdatedAt :: 'time
  Upvotes :: int
  Downvotes :: int
  Author :: "'user option"
  Assignee :: "'user option"
  Assignees :: "'user option list option"
  Reviewers :: "'user option list option"
  SourceProjectID :: int
  TargetProjectID :: int
  Labels :: "'labels option"
  Description :: string
  Draft :: bool
  WorkInProgress :: bool
  Milestone :: "string option"
  MergeWhenPipelineSucceeds :: bool
  DetailedMergeStatus :: string
  MergedBy :: "'user option"
  MergedAt :: "'time option"
  ClosedBy :: "'user option"
  ClosedAt :: "'time option"
  Sha :: string
  MergeCommitSha :: string
  SquashCommitSha :: string
  UserNotesCount :: int
  ShouldRemoveSourceBranch :: "bool option"
  ForceRemoveSourceBranch :: bool
  WebURL :: string
  References :: "'refs option"
  DiscussionLocked :: "bool option"
  TimeStats :: "'tstats option"
  Squash :: bool
  ApprovalsBeforeMerge :: "int option"
  Reference :: string
  TaskCompletionStatus :: "'tcs option"
  HasConflicts :: bool
  BlockingDiscussionsResolved :: bool
  MergeStatus :: string
  MergeUser :: "'user option"
  MergeAfter :: 'time
  Imported :: bool
  ImportedFrom :: string
  PreparedAt :: "'time option"
  SquashOnMerge :: bool

record ('user, 'labels, 'refs, 'tstats, 'tcs, 'time) MergeRequestDependency =
  ID :: int
  BlockingMergeRequest :: "('user, 'labels, 'refs, 'tstats, 'tcs, 'time) BlockingMergeRequest"
  ProjectID :: int

subsection \<open>Decoding\<close>

text \<open>
  What \<^verbatim>\<open>encoding/json\<close> stores for a JSON value, by the Go type of the destination. The
  value \<^verbatim>\<open>null\<close> leaves an \<^verbatim>\<open>int\<close>, a \<^verbatim>\<open>string\<close>, a \<^verbatim>\<open>bool\<close>, a \<^verbatim>\<open>time.Time\<close> and a struct as
  they are and makes a pointer and a slice \<^verbatim>\<open>nil\<close>; any other value of the wrong kind is
  an error. A number must fit the 64 bits of an \<^verbatim>\<open>int\<close>.
\<close>

definition unmarshal_int :: "json \<Rightarrow> int \<Rightarrow> json_error + int" where
  "unmarshal_int v cur =
     (case v of
        JNull \<Rightarrow> Inr cur
      | JNumber n \<Rightarrow>
          if - (2 ^ 63) \<le> n \<and> n < 2 ^ 63 then Inr n else Inl UnmarshalTypeError
      | _ \<Rightarrow> Inl UnmarshalTypeError)"

definition unmarshal_string :: "json \<Rightarrow> string \<Rightarrow> json_error + string" where
  "unmarshal_string v cur =
     (case v of JNull \<Rightarrow> Inr cur | JString x \<Rightarrow> Inr x | _ \<Rightarrow> Inl UnmarshalTypeError)"

definition unmarshal_bool :: "json \<Rightarrow> bool \<Rightarrow> json_error + bool" where
  "unmarshal_bool v cur =
     (case v of JNull \<Rightarrow> Inr cur | JBool b \<Rightarrow> Inr b | _ \<Rightarrow> Inl UnmarshalTypeError)"

text \<open>
  A pointer is allocated for every value but \<^verbatim>\<open>null\<close>, and a slice for every array, the
  empty one too.
\<close>

definition unmarshal_pointer :: "(json \<Rightarrow> json_error + 'a) \<Rightarrow> json \<Rightarrow> json_error + 'a option" where
  "unmarshal_pointer dec v = (case v of JNull \<Rightarrow> Inr None | _ \<Rightarrow> store (dec v) Some)"

definition unmarshal_slice :: "(json \<Rightarrow> json_error + 'a) \<Rightarrow> json \<Rightarrow> json_error + 'a list option" where
  "unmarshal_slice dec v =
     (case v of
        JNull \<Rightarrow> Inr None
      | JArray xs \<Rightarrow> store (collect (map dec xs)) Some
      | _ \<Rightarrow> Inl UnmarshalTypeError)"

text \<open>
  The decoders of the types declared elsewhere, the parser that \<^verbatim>\<open>time.Time\<close> applies to
  a JSON string, and the zero \<^verbatim>\<open>time.Time\<close>.
\<close>

record ('user, 'labels, 'refs, 'tstats, 'tcs, 'time) codec =
  decodeBasicUser :: "json \<Rightarrow> json_error + 'user"
  decodeLabelOptions :: "json \<Rightarrow> json_error + 'labels"
  decodeIssueReferences :: "json \<Rightarrow> json_error + 'refs"
  decodeTimeStats :: "json \<Rightarrow> json_error + 'tstats"
  decodeTasksCompletionStatus :: "json \<Rightarrow> json_error + 'tcs"
  parseTime :: "string \<Rightarrow> 'time option"
  zeroTime :: "'time"

definition unmarshal_Time ::
  "('user, 'labels, 'refs, 'tstats, 'tcs, 'time) codec \<Rightarrow> json \<Rightarrow> 'time \<Rightarrow> json_error + 'time" where
  "unmarshal_Time c v cur =
     (case v of
        JNull \<Rightarrow> Inr cur
      | JString x \<Rightarrow> (case parseTime c x of None \<Rightarrow> Inl UnmarshalerError | Some t \<Rightarrow> Inr t)
      | _ \<Rightarrow> Inl UnmarshalerError)"

text \<open>The zero value of the struct: what a declared variable holds before anything is stored.\<close>

definition zero_BlockingMergeRequest ::
  "('user, 'labels, 'refs, 'tstats, 'tcs, 'time) codec
    \<Rightarrow> ('user, 'labels, 'refs, 'tstats, 'tcs, 'time) BlockingMergeRequest" where
  "zero_BlockingMergeRequest c =
     \<lparr>BlockingMergeRequest.ID = 0, Iid = 0, TargetBranch = [], SourceBranch = [],
      BlockingMergeRequest.ProjectID = 0, Title = [], State = [], CreatedAt = zeroTime c,
      UpdatedAt = zeroTime c, Upvotes = 0, Downvotes = 0, Author = None, Assignee = None,
      Assignees = None, Reviewers = None, SourceProjectID = 0, TargetProjectID = 0,
      Labels = None, Description = [], Draft = False, WorkInProgress = False, Milestone = None,
      MergeWhenPipelineSucceeds = False, DetailedMergeStatus = [], MergedBy = None,
      MergedAt = None, ClosedBy = None, ClosedAt = None, Sha = [], MergeCommitSha = [],
      SquashCommitSha = [], UserNotesCount = 0, ShouldRemoveSourceBranch = None,
      ForceRemoveSourceBranch = False, WebURL = [], References = None, DiscussionLocked = None,
      TimeStats = None, Squash = False, ApprovalsBeforeMerge = None, Reference = [],
      TaskCompletionStatus = None, HasConflicts = False, BlockingDiscussionsResolved = False,
      MergeStatus = [], MergeUser = None, MergeAfter = zeroTime c, Imported = False,
      ImportedFrom = [], PreparedAt = None, SquashOnMerge = False\<rparr>"

text \<open>
  One member of a JSON object, stored in the field whose \<^verbatim>\<open>json\<close> tag is the member's
  name. A member that matches no tag is skipped. (Names are compared as the tags spell
  them; Go also accepts a name that differs from a tag in the case of its letters.)
\<close>

definition set_field ::
  "('user, 'labels, 'refs, 'tstats, 'tcs, 'time) codec \<Rightarrow> string \<Rightarrow> json
    \<Rightarrow> ('user, 'labels, 'refs, 'tstats, 'tcs, 'time) BlockingMergeRequest
    \<Rightarrow> json_error + ('user, 'labels, 'refs, 'tstats, 'tcs, 'time) BlockingMergeRequest" where
  "set_field c k v r =
     (if k = ''id'' then
        store (unmarshal_int v (BlockingMergeRequest.ID r)) (\<lambda>x. r\<lparr>BlockingMergeRequest.ID := x\<rparr>)
      else if k = ''iid'' then
        store (unmarshal_int v (Iid r)) (\<lambda>x. r\<lparr>Iid := x\<rparr>)
      else if k = ''target_branch'' then
        store (unmarshal_string v (TargetBranch r)) (\<lambda>x. r\<lparr>TargetBranch := x\<rparr>)
      else if k = ''source_branch'' then
        store (unmarshal_string v (SourceBranch r)) (\<lambda>x. r\<lparr>SourceBranch := x\<rparr>)
      else if k = ''project_id'' then
        store (unmarshal_int v (BlockingMergeRequest.ProjectID r)) (\<lambda>x. r\<lparr>BlockingMergeRequest.ProjectID := x\<rparr>)
      else if k = ''title'' then
        store (unmarshal_string v (Title r)) (\<lambda>x. r\<lparr>Title := x\<rparr>)
      else if k = ''state'' then
        store (unmarshal_string v (State r)) (\<lambda>x. r\<lparr>State := x\<rparr>)
      else if k = ''created_at'' then
        store (unmarshal_Time c v (CreatedAt r)) (\<lambda>x. r\<lparr>CreatedAt := x\<rparr>)
      else if k = ''updated_at'' then
        store (unmarshal_Time c v (UpdatedAt r)) (\<lambda>x. r\<lparr>UpdatedAt := x\<rparr>)
      else if k = ''upvotes'' then
        store (unmarshal_int v (Upvotes r)) (\<lambda>x. r\<lparr>Upvotes := x\<rparr>)
      else if k = ''downvotes'' then
        store (unmarshal_int v (Downvotes r)) (\<lambda>x. r\<lparr>Downvotes := x\<rparr>)
      else if k = ''author'' then
        store (unmarshal_pointer (decodeBasicUser c) v) (\<lambda>x. r\<lparr>Author := x\<rparr>)
      else if k = ''assignee'' then
        store (unmarshal_pointer (decodeBasicUser c) v) (\<lambda>x. r\<lparr>Assignee := x\<rparr>)
      else if k = ''assignees'' then
        store (unmarshal_slice (unmarshal_pointer (decodeBasicUser c)) v) (\<lambda>x. r\<lparr>Assignees := x\<rparr>)
      else if k = ''reviewers'' then
        store (unmarshal_slice (unmarshal_pointer (decodeBasicUser c)) v) (\<lambda>x. r\<lparr>Reviewers := x\<rparr>)
      else if k = ''source_project_id'' then
        store (unmarshal_int v (SourceProjectID r)) (\<lambda>x. r\<lparr>SourceProjectID := x\<rparr>)
      else if k = ''target_project_id'' then
        store (unmarshal_int v (TargetProjectID r)) (\<lambda>x. r\<lparr>TargetProjectID := x\<rparr>)
      else if k = ''labels'' then
        store (unmarshal_pointer (decodeLabelOptions c) v) (\<lambda>x. r\<lparr>Labels := x\<rparr>)
      else if k = ''description'' then
        store (unmarshal_string v (Description r)) (\<lambda>x. r\<lparr>Description := x\<rparr>)
      else if k = ''draft'' then
        store (unmarshal_bool v (Draft r)) (\<lambda>x. r\<lparr>Draft := x\<rparr>)
      else if k = ''work_in_progress'' then
        store (unmarshal_bool v (WorkInProgress r)) (\<lambda>x. r\<lparr>WorkInProgress := x\<rparr>)
      else if k = ''milestone'' then
        store (unmarshal_pointer (\<lambda>x. unmarshal_string x []) v) (\<lambda>x. r\<lparr>Milestone := x\<rparr>)
      else if k = ''merge_when_pipeline_succeeds'' then
        store (unmarshal_bool v (MergeWhenPipelineSucceeds r)) (\<lambda>x. r\<lparr>MergeWhenPipelineSucceeds := x\<rparr>)
      else if k = ''detailed_merge_status'' then
        store (unmarshal_string v (DetailedMergeStatus r)) (\<lambda>x. r\<lparr>DetailedMergeStatus := x\<rparr>)
      else if k = ''merged_by'' then
        store (unmarshal_pointer (decodeBasicUser c) v) (\<lambda>x. r\<lparr>MergedBy := x\<rparr>)
      else if k = ''merged_at'' then
        store (unmarshal_pointer (\<lambda>x. unmarshal_Time c x (zeroTime c)) v) (\<lambda>x. r\<lparr>MergedAt := x\<rparr>)
      else if k = ''closed_by'' then
        store (unmarshal_pointer (decodeBasicUser c) v) (\<lambda>x. r\<lparr>ClosedBy := x\<rparr>)
      else if k = ''closed_at'' then
        store (unmarshal_pointer (\<lambda>x. unmarshal_Time c x (zeroTime c)) v) (\<lambda>x. r\<lparr>ClosedAt := x\<rparr>)
      else if k = ''sha'' then
        store (unmarshal_string v (Sha r)) (\<lambda>x. r\<lparr>Sha := x\<rparr>)
      else if k = ''merge_commit_sha'' then
        store (unmarshal_string v (MergeCommitSha r)) (\<lambda>x. r\<lparr>MergeCommitSha := x\<rparr>)
      else if k = ''squash_commit_sha'' then
        store (unmarshal_string v (SquashCommitSha r)) (\<lambda>x. r\<lparr>SquashCommitSha := x\<rparr>)
      else if k = ''user_notes_count'' then
        store (unmarshal_int v (UserNotesCount r)) (\<lambda>x. r\<lparr>UserNotesCount := x\<rparr>)
      else if k = ''should_remove_source_branch'' then
        store (unmarshal_pointer (\<lambda>x. unmarshal_bool x False) v) (\<lambda>x. r\<lparr>ShouldRemoveSourceBranch := x\<rparr>)
      else if k = ''force_remove_source_branch'' then
        store (unmarshal_bool v (ForceRemoveSourceBranch r)) (\<lambda>x. r\<lparr>ForceRemoveSourceBranch := x\<rparr>)
      else if k = ''web_url'' then
        store (unmarshal_string v (WebURL r)) (\<lambda>x. r\<lparr>WebURL := x\<rparr>)
      else if k = ''references'' then
        store (unmarshal_pointer (decodeIssueReferences c) v) (\<lambda>x. r\<lparr>References := x\<rparr>)
      else if k = ''discussion_locked'' then
        store (unmarshal_pointer (\<lambda>x. unmarshal_bool x False) v) (\<lambda>x. r\<lparr>DiscussionLocked := x\<rparr>)
      else if k = ''time_stats'' then
        store (unmarshal_pointer (decodeTimeStats c) v) (\<lambda>x. r\<lparr>TimeStats := x\<rparr>)
      else if k = ''squash'' then
        store (unmarshal_bool v (Squash r)) (\<lambda>x. r\<lparr>Squash := x\<rparr>)
      else if k = ''approvals_before_merge'' then
        store (unmarshal_pointer (\<lambda>x. unmarshal_int x 0) v) (\<lambda>x. r\<lparr>ApprovalsBeforeMerge := x\<rparr>)
      else if k = ''reference'' then
        store (unmarshal_string v (Reference r)) (\<lambda>x. r\<lparr>Reference := x\<rparr>)
      else if k = ''task_completion_status'' then
        store (unmarshal_pointer (decodeTasksCompletionStatus c) v) (\<lambda>x. r\<lparr>TaskCompletionStatus := x\<rparr>)
      else if k = ''has_conflicts'' then
        store (unmarshal_bool v (HasConflicts r)) (\<lambda>x. r\<lparr>HasConflicts := x\<rparr>)
      else if k = ''blocking_discussions_resolved'' then
        store (unmarshal_bool v (BlockingDiscussionsResolved r)) (\<lambda>x. r\<lparr>BlockingDiscussionsResolved := x\<rparr>)
      else if k = ''merge_status'' then
        store (unmarshal_string v (MergeStatus r)) (\<lambda>x. r\<lparr>MergeStatus := x\<rparr>)
      else if k = ''merge_user'' then
        store (unmarshal_pointer (decodeBasicUser c) v) (\<lambda>x. r\<lparr>MergeUser := x\<rparr>)
      else if k = ''merge_after'' then
        store (unmarshal_Time c v (MergeAfter r)) (\<lambda>x. r\<lparr>MergeAfter := x\<rparr>)
      else if k = ''imported'' then
        store (unmarshal_bool v (Imported r)) (\<lambda>x. r\<lparr>Imported := x\<rparr>)
      else if k = ''imported_from'' then
        store (unmarshal_string v (ImportedFrom r)) (\<lambda>x. r\<lparr>ImportedFrom := x\<rparr>)
      else if k = ''prepared_at'' then
        store (unmarshal_pointer (\<lambda>x. unmarshal_Time c x (zeroTime c)) v) (\<lambda>x. r\<lparr>PreparedAt := x\<rparr>)
      else if k = ''squash_on_merge'' then
        store (unmarshal_bool v (SquashOnMerge r)) (\<lambda>x. r\<lparr>SquashOnMerge := x\<rparr>)
      else Inr r)"

text \<open>
  An object is stored member by member, in the order of the text, into the value the
  destination holds; the first error ends the decoding. (For a name that occurs twice
  this overwrites a pointer or a slice where Go decodes into the old one.)
\<close>

fun store_fields ::
  "('user, 'labels, 'refs, 'tstats, 'tcs, 'time) codec \<Rightarrow> (string \<times> json) list
    \<Rightarrow> ('user, 'labels, 'refs, 'tstats, 'tcs, 'time) BlockingMergeRequest
    \<Rightarrow> json_error + ('user, 'labels, 'refs, 'tstats, 'tcs, 'time) BlockingMergeRequest" where
  "store_fields c [] r = Inr r"
| "store_fields c ((k, v) # kvs) r =
     (case set_field c k v r of Inl e \<Rightarrow> Inl e | Inr r' \<Rightarrow> store_fields c kvs r')"

definition unmarshal_BlockingMergeRequest ::
  "('user, 'labels, 'refs, 'tstats, 'tcs, 'time) codec \<Rightarrow> json
    \<Rightarrow> ('user, 'labels, 'refs, 'tstats, 'tcs, 'time) BlockingMergeRequest
    \<Rightarrow> json_error + ('user, 'labels, 'refs, 'tstats, 'tcs, 'time) BlockingMergeRequest" where
  "unmarshal_BlockingMergeRequest c v cur =
     (case v of
        JNull \<Rightarrow> Inr cur
      | JObject kvs \<Rightarrow> store_fields c kvs cur
      | _ \<Rightarrow> Inl UnmarshalTypeError)"

definition zero_MergeRequestDependency ::
  "('user, 'labels, 'refs, 'tstats, 'tcs, 'time) codec
    \<Rightarrow> ('user, 'labels, 'refs, 'tstats, 'tcs, 'time) MergeRequestDependency" where
  "zero_MergeRequestDependency c =
     \<lparr>MergeRequestDependency.ID = 0, BlockingMergeRequest = zero_BlockingMergeRequest c,
      MergeRequestDependency.ProjectID = 0\<rparr>"

definition set_dependency_field ::
  "('user, 'labels, 'refs, 'tstats, 'tcs, 'time) codec \<Rightarrow> string \<Rightarrow> json
    \<Rightarrow> ('user, 'labels, 'refs, 'tstats, 'tcs, 'time) MergeRequestDependency
    \<Rightarrow> json_error + ('user, 'labels, 'refs, 'tstats, 'tcs, 'time) MergeRequestDependency" where
  "set_dependency_field c k v r =
     (if k = ''id'' then
        store (unmarshal_int v (MergeRequestDependency.ID r))
          (\<lambda>x. r\<lparr>MergeRequestDependency.ID := x\<rparr>)
      else if k = ''blocking_merge_request'' then
        store (unmarshal_BlockingMergeRequest c v (BlockingMergeRequest r))
          (\<lambda>x. r\<lparr>BlockingMergeRequest := x\<rparr>)
      else if k = ''project_id'' then
        store (unmarshal_int v (MergeRequestDependency.ProjectID r))
          (\<lambda>x. r\<lparr>MergeRequestDependency.ProjectID := x\<rparr>)
      else Inr r)"

fun store_dependency_fields ::
  "('user, 'labels, 'refs, 'tstats, 'tcs, 'time) codec \<Rightarrow> (string \<times> json) list
    \<Rightarrow> ('user, 'labels, 'refs, 'tstats, 'tcs, 'time) MergeRequestDependency
    \<Rightarrow> json_error + ('user, 'labels, 'refs, 'tstats, 'tcs, 'time) MergeRequestDependency" where
  "store_dependency_fields c [] r = Inr r"
| "store_dependency_fields c ((k, v) # kvs) r =
     (case set_dependency_field c k v r of
        Inl e \<Rightarrow> Inl e
      | Inr r' \<Rightarrow> store_dependency_fields c kvs r')"

definition unmarshal_MergeRequestDependency ::
  "('user, 'labels, 'refs, 'tstats, 'tcs, 'time) codec \<Rightarrow> json
    \<Rightarrow> ('user, 'labels, 'refs, 'tstats, 'tcs, 'time) MergeRequestDependency
    \<Rightarrow> json_error + ('user, 'labels, 'refs, 'tstats, 'tcs, 'time) MergeRequestDependency" where
  "unmarshal_MergeRequestDependency c v cur =
     (case v of
        JNull \<Rightarrow> Inr cur
      | JObject kvs \<Rightarrow> store_dependency_fields c kvs cur
      | _ \<Rightarrow> Inl UnmarshalTypeError)"

text \<open>
  The destination of the list operation is \<^verbatim>\<open>[]MergeRequestDependency\<close>, a \<^verbatim>\<open>nil\<close> slice:
  every element of the array is decoded into a zero struct.
\<close>

definition unmarshal_MergeRequestDependencies ::
  "('user, 'labels, 'refs, 'tstats, 'tcs, 'time) codec \<Rightarrow> json
    \<Rightarrow> json_error + ('user, 'labels, 'refs, 'tstats, 'tcs, 'time) MergeRequestDependency list option" where
  "unmarshal_MergeRequestDependencies c v =
     unmarshal_slice (\<lambda>x. unmarshal_MergeRequestDependency c x (zero_MergeRequestDependency c)) v"







section \<open>Reading a path and a list of calls\<close>

text \<open>
  The paths and the requests an operation handed to the client, the number of places
  where a string occurs in another, and the segments of a path between its slashes.
\<close>

fun requested :: "('rof, 'req, 'v) client_call list \<Rightarrow> (string \<times> string) list" where
  "requested [] = []"
| "requested (NewRequest_call m u body options # cs) = (m, u) # requested cs"
| "requested (Do_call req v # cs) = requested cs"


text \<open>
  What \<^verbatim>\<open>NewRequest\<close> was given to serialise, in its two forms: the JSON body and the
  query of each request an operation asked for (\<open>None\<close> and no parameters for \<^verbatim>\<open>nil\<close>).
\<close>

fun request_bodies :: "('rof, 'req, 'v) client_call list \<Rightarrow> json option list" where
  "request_bodies [] = []"
| "request_bodies (NewRequest_call m u body options # cs) =
     map_option json_CreateMergeRequestDependencyOptions body # request_bodies cs"
| "request_bodies (Do_call req v # cs) = request_bodies cs"

fun request_queries :: "('rof, 'req, 'v) client_call list \<Rightarrow> (string \<times> string) list list" where
  "request_queries [] = []"
| "request_queries (NewRequest_call m u body options # cs) =
     (case body of None \<Rightarrow> [] | Some opts \<Rightarrow> query_CreateMergeRequestDependencyOptions opts)
       # request_queries cs"
| "request_queries (Do_call req v # cs) = request_queries cs"

text \<open>The two path templates of the operations, for an identifier already escaped.\<close>

definition blocks_path :: "string \<Rightarrow> int \<Rightarrow> string" where
  "blocks_path escaped mergeRequest =
     ''projects/'' @ escaped @ ''/merge_requests/'' @ fmt_d mergeRequest @ ''/blocks''"

definition block_path :: "string \<Rightarrow> int \<Rightarrow> int \<Rightarrow> string" where
  "block_path escaped mergeRequest blockingMergeRequest =
     ''projects/'' @ escaped @ ''/merge_requests/'' @ fmt_d mergeRequest @ ''/blocks/''
       @ fmt_d blockingMergeRequest"

fun starts_with :: "string \<Rightarrow> string \<Rightarrow> bool" where
  "starts_with [] ys = True"
| "starts_with (x # xs) [] = False"
| "starts_with (x # xs) (y # ys) = (x = y \<and> starts_with xs ys)"

fun occurrences :: "string \<Rightarrow> string \<Rightarrow> nat" where
  "occurrences x [] = (if x = [] then 1 else 0)"
| "occurrences x (y # ys) = (if starts_with x (y # ys) then 1 else 0) + occurrences x ys"

fun segments :: "string \<Rightarrow> string list" where
  "segments [] = [[]]"
| "segments (c # cs) =
     (if c = CHR ''/'' then [] # segments cs
      else (case segments cs of [] \<Rightarrow> [[c]] | s # ss \<Rightarrow> (c # s) # ss))"

section \<open>The collaborators, concretely\<close>

text \<open>
  The operations above hold for every client and every pair of package functions. To
  run them the definitions of this section supply one of each, written from what the
  specification says about them.
\<close>

subsection \<open>Identifiers and escaping\<close>

text \<open>
  The identifier of a project is a number or a path name; a value of any other dynamic
  type can be passed as well, since the parameter is an \<^verbatim>\<open>interface{}\<close>.
\<close>

datatype ident = IntID int | StringID string | OtherID

datatype gitlab_error =
  InvalidID
| OptionError
| ConnectionError
| ErrorResponse nat
| DecodeError json_error

text \<open>
  Modelled from the spec: \<^verbatim>\<open>parseID\<close>, which is defined in another file of the package.
  "Identifier normalization: accepts a numeric or string identifier, returns a path-safe
  string or an error on invalid input." A number gives its decimal digits, a string is
  returned as it is, anything else is invalid.
\<close>

definition spec_parseID :: "ident \<Rightarrow> gitlab_error + string" where
  "spec_parseID pid =
     (case pid of
        IntID n \<Rightarrow> Inr (fmt_d n)
      | StringID x \<Rightarrow> Inr x
      | OtherID \<Rightarrow> Inl InvalidID)"

definition hex_digit :: "nat \<Rightarrow> char" where
  "hex_digit n = ''0123456789ABCDEF'' ! n"

definition unreserved :: "char \<Rightarrow> bool" where
  "unreserved c =
     (c \<in> set ''ABCDEFGHIJKLMNOPQRSTUVWXYZabcdefghijklmnopqrstuvwxyz0123456789-_~'')"

text \<open>
  Modelled from the spec: \<^verbatim>\<open>PathEscape\<close>, which is defined in another file of the package.
  "Path-segment escaping: percent-encodes a path component." Letters, digits, \<^verbatim>\<open>-\<close>, \<^verbatim>\<open>_\<close>
  and \<^verbatim>\<open>~\<close> stand for themselves; every other byte becomes \<^verbatim>\<open>%\<close> and its two hexadecimal
  digits.
\<close>

fun spec_PathEscape :: "string \<Rightarrow> string" where
  "spec_PathEscape [] = []"
| "spec_PathEscape (c # cs) =
     (if unreserved c then c # spec_PathEscape cs
      else CHR ''%'' # hex_digit (of_char c div 16) # hex_digit (of_char c mod 16)
             # spec_PathEscape cs)"

definition spec_package :: "(ident, gitlab_error) package_functions" where
  "spec_package = \<lparr>parseID = spec_parseID, PathEscape = spec_PathEscape\<rparr>"

subsection \<open>A client with a canned server\<close>

text \<open>
  A request as the client builds it, and the metadata of a response. The world of this
  client is the list of the requests it has sent, oldest first.
\<close>

record http_request =
  http_method :: string
  url_path :: string
  payload :: "json option"

record Response =
  StatusCode :: nat

type_synonym request_option = "http_request \<Rightarrow> gitlab_error + http_request"

fun apply_options :: "request_option list \<Rightarrow> http_request \<Rightarrow> gitlab_error + http_request" where
  "apply_options [] req = Inr req"
| "apply_options (f # fs) req =
     (case f req of Inl e \<Rightarrow> Inl e | Inr req' \<Rightarrow> apply_options fs req')"

text \<open>
  Modelled from the spec: \<^verbatim>\<open>NewRequest\<close> of the client, which is defined in another file.
  "Request construction: (method, path, body-or-query-struct, variadic per-call options)
  -> request-or-error." The options struct is serialised into the request, then the
  per-call options are applied in order, and the first that fails ends the
  construction. Nothing is sent.
\<close>

definition spec_NewRequest ::
  "string \<Rightarrow> string \<Rightarrow> CreateMergeRequestDependencyOptions option \<Rightarrow> request_option list
    \<Rightarrow> http_request list \<Rightarrow> (gitlab_error + http_request) \<times> http_request list" where
  "spec_NewRequest m u opt options w =
     (apply_options options
        \<lparr>http_method = m, url_path = u,
         payload = map_option json_CreateMergeRequestDependencyOptions opt\<rparr>, w)"

text \<open>
  Modelled from the spec: \<^verbatim>\<open>Do\<close> of the client, which is defined in another file.
  "Request execution: (request, target-to-decode-into) -> (response-metadata, error);
  when the target is omitted, no body is decoded." The server answers a request with a
  status and a body, or not at all. A connection failure gives an error and no
  response; a status outside 200..299 and a body that does not decode give an error
  next to the response.
\<close>

definition spec_Do ::
  "('user, 'labels, 'refs, 'tstats, 'tcs, 'time) codec
    \<Rightarrow> (http_request \<Rightarrow> (nat \<times> json) option) \<Rightarrow> http_request
    \<Rightarrow> ('user, 'labels, 'refs, 'tstats, 'tcs, 'time) MergeRequestDependency list option option
    \<Rightarrow> http_request list
    \<Rightarrow> (Response option \<times> gitlab_error option
         \<times> ('user, 'labels, 'refs, 'tstats, 'tcs, 'time) MergeRequestDependency list option option)
        \<times> http_request list" where
  "spec_Do c server req v w =
     (case server req of
        None \<Rightarrow> ((None, Some ConnectionError, None), w @ [req])
      | Some (status, body) \<Rightarrow>
          (if status < 200 \<or> 299 < status then
             ((Some \<lparr>StatusCode = status\<rparr>, Some (ErrorResponse status), None), w @ [req])
           else
             (case v of
                None \<Rightarrow> ((Some \<lparr>StatusCode = status\<rparr>, None, None), w @ [req])
              | Some cur \<Rightarrow>
                  (case unmarshal_MergeRequestDependencies c body of
                     Inl e \<Rightarrow>
                       ((Some \<lparr>StatusCode = status\<rparr>, Some (DecodeError e), None), w @ [req])
                   | Inr x \<Rightarrow> ((Some \<lparr>StatusCode = status\<rparr>, None, Some x), w @ [req])))))"

definition spec_service ::
  "('user, 'labels, 'refs, 'tstats, 'tcs, 'time) codec \<Rightarrow> (http_request \<Rightarrow> (nat \<times> json) option)
    \<Rightarrow> (request_option, http_request, Response, gitlab_error,
        ('user, 'labels, 'refs, 'tstats, 'tcs, 'time) MergeRequestDependency list option,
        http_request list) MergeRequestDependenciesService" where
  "spec_service c server = \<lparr>client = \<lparr>NewRequest = spec_NewRequest, Do = spec_Do c server\<rparr>\<rparr>"

text \<open>
  A codec that keeps the JSON value of each struct declared elsewhere and the text of
  each time stamp.
\<close>

definition raw_codec :: "(json, json, json, json, json, string) codec" where
  "raw_codec =
     \<lparr>decodeBasicUser = Inr, decodeLabelOptions = Inr, decodeIssueReferences = Inr,
      decodeTimeStats = Inr, decodeTasksCompletionStatus = Inr,
      parseTime = Some, zeroTime = ''0001-01-01T00:00:00Z''\<rparr>"

subsection \<open>Servers for the examples\<close>

text \<open>
  A server that fails in three ways: it does not answer a \<^verbatim>\<open>POST\<close>, answers a \<^verbatim>\<open>DELETE\<close>
  with the status 404, and answers anything else with an array whose second element
  is not an object.
\<close>

definition failing_server :: "http_request \<Rightarrow> (nat \<times> json) option" where
  "failing_server r =
     (if http_method r = ''POST'' then None
      else if http_method r = ''DELETE'' then Some (404, JNull)
      else Some (200, JArray [JObject [(''id'', JNumber 1)], JString ''x'']))"

text \<open>
  A server with canned answers: to a \<^verbatim>\<open>GET\<close> an array of two dependencies with distinct
  identifiers and titles, to a \<^verbatim>\<open>POST\<close> the status 201 and to anything else the status 204.
\<close>

definition fixture_body :: json where
  "fixture_body =
     JArray
       [JObject
          [(''id'', JNumber 1),
           (''blocking_merge_request'',
            JObject
              [(''id'', JNumber 10), (''iid'', JNumber 2), (''title'', JString ''first''),
               (''state'', JString ''opened''), (''draft'', JBool True),
               (''milestone'', JNull), (''approvals_before_merge'', JNumber 0),
               (''assignees'', JArray [])]),
           (''project_id'', JNumber 5)],
        JObject
          [(''id'', JNumber 2),
           (''blocking_merge_request'',
            JObject [(''id'', JNumber 11), (''iid'', JNumber 3), (''title'', JString ''second'')]),
           (''project_id'', JNumber 5)]]"

definition fixture_server :: "http_request \<Rightarrow> (nat \<times> json) option" where
  "fixture_server r =
     (if http_method r = ''GET'' then Some (200, fixture_body)
      else if http_method r = ''POST'' then Some (201, JNull)
      else Some (204, JNull))"

section \<open>Properties of the operations\<close>

subsection \<open>The operations after a successful normalisation\<close>

text \<open>
  Once \<^verbatim>\<open>parseID\<close> has returned a string, each operation is a call of \<^verbatim>\<open>NewRequest\<close> with
  one of the two path templates and, when that returned a request, a call of \<^verbatim>\<open>Do\<close>.
\<close>

lemma Create_valid:
  assumes "parseID pkg pid = Inr project"
  shows "CreateMergeRequestDependency pkg s pid mergeRequest opts options w =
     (case NewRequest (client s) MethodPost (blocks_path (PathEscape pkg project) mergeRequest)
             (Some opts) options w of
        (Inl err, w1) \<Rightarrow>
          ((None, Some err),
           [NewRequest_call MethodPost (blocks_path (PathEscape pkg project) mergeRequest)
              (Some opts) options], w1)
      | (Inr req, w1) \<Rightarrow>
          (case Do (client s) req None w1 of
             ((resp, err, stored), w2) \<Rightarrow>
               ((resp, err),
                [NewRequest_call MethodPost (blocks_path (PathEscape pkg project) mergeRequest)
                   (Some opts) options, Do_call req None], w2)))"
  using assms
  by (simp add: CreateMergeRequestDependency_def blocks_path_def Let_def
      split: sum.split prod.split)

lemma Delete_valid:
  assumes "parseID pkg pid = Inr project"
  shows "DeleteMergeRequestDependency pkg s pid mergeRequest blockingMergeRequest options w =
     (case NewRequest (client s) MethodDelete
             (block_path (PathEscape pkg project) mergeRequest blockingMergeRequest)
             None options w of
        (Inl err, w1) \<Rightarrow>
          ((None, Some err),
           [NewRequest_call MethodDelete
              (block_path (PathEscape pkg project) mergeRequest blockingMergeRequest)
              None options], w1)
      | (Inr req, w1) \<Rightarrow>
          (case Do (client s) req None w1 of
             ((resp, err, stored), w2) \<Rightarrow>
               ((resp, err),
                [NewRequest_call MethodDelete
                   (block_path (PathEscape pkg project) mergeRequest blockingMergeRequest)
                   None options, Do_call req None], w2)))"
  using assms
  by (simp add: DeleteMergeRequestDependency_def block_path_def Let_def
      split: sum.split prod.split)

lemma Get_valid:
  assumes "parseID pkg pid = Inr project"
  shows "GetMergeRequestDependencies pkg s pid mergeRequest options w =
     (case NewRequest (client s) MethodGet (blocks_path (PathEscape pkg project) mergeRequest)
             None options w of
        (Inl err, w1) \<Rightarrow>
          ((None, None, Some err),
           [NewRequest_call MethodGet (blocks_path (PathEscape pkg project) mergeRequest)
              None options], w1)
      | (Inr req, w1) \<Rightarrow>
          (case Do (client s) req (Some None) w1 of
             ((resp, err, stored), w2) \<Rightarrow>
               ((if err \<noteq> None then None else (case stored of None \<Rightarrow> None | Some x \<Rightarrow> x),
                 resp, err),
                [NewRequest_call MethodGet (blocks_path (PathEscape pkg project) mergeRequest)
                   None options, Do_call req (Some None)], w2)))"
  using assms
  by (simp add: GetMergeRequestDependencies_def blocks_path_def Let_def
      split: sum.split prod.split)

lemma Do_result:
  obtains resp err stored w2 where "(x :: ('a \<times> 'b \<times> 'c) \<times> 'd) = ((resp, err, stored), w2)"
  by (metis surj_pair)

text \<open>The one request each operation asks for.\<close>

lemma Create_requested:
  assumes "parseID pkg pid = Inr project"
  shows "requested (fst (snd (CreateMergeRequestDependency pkg s pid mergeRequest opts
                                options w)))
           = [(''POST'', blocks_path (PathEscape pkg project) mergeRequest)]"
proof -
  obtain r w1 where n: "NewRequest (client s) MethodPost
      (blocks_path (PathEscape pkg project) mergeRequest) (Some opts) options w = (r, w1)"
    by (rule prod.exhaust)
  show ?thesis
  proof (cases r)
    case (Inl e)
    with n show ?thesis
      by (simp add: Create_valid [OF assms] MethodPost_def)
  next
    case (Inr req)
    obtain resp err stored w2 where "Do (client s) req None w1 = ((resp, err, stored), w2)"
      by (rule Do_result)
    with n Inr show ?thesis
      by (simp add: Create_valid [OF assms] MethodPost_def)
  qed
qed

lemma Delete_requested:
  assumes "parseID pkg pid = Inr project"
  shows "requested (fst (snd (DeleteMergeRequestDependency pkg s pid mergeRequest
                                blockingMergeRequest options w)))
           = [(''DELETE'', block_path (PathEscape pkg project) mergeRequest
                             blockingMergeRequest)]"
proof -
  obtain r w1 where n: "NewRequest (client s) MethodDelete
      (block_path (PathEscape pkg project) mergeRequest blockingMergeRequest) None options w
        = (r, w1)"
    by (rule prod.exhaust)
  show ?thesis
  proof (cases r)
    case (Inl e)
    with n show ?thesis
      by (simp add: Delete_valid [OF assms] MethodDelete_def)
  next
    case (Inr req)
    obtain resp err stored w2 where "Do (client s) req None w1 = ((resp, err, stored), w2)"
      by (rule Do_result)
    with n Inr show ?thesis
      by (simp add: Delete_valid [OF assms] MethodDelete_def)
  qed
qed

lemma Get_requested:
  assumes "parseID pkg pid = Inr project"
  shows "requested (fst (snd (GetMergeRequestDependencies pkg s pid mergeRequest options w)))
           = [(''GET'', blocks_path (PathEscape pkg project) mergeRequest)]"
proof -
  obtain r w1 where n: "NewRequest (client s) MethodGet
      (blocks_path (PathEscape pkg project) mergeRequest) None options w = (r, w1)"
    by (rule prod.exhaust)
  show ?thesis
  proof (cases r)
    case (Inl e)
    with n show ?thesis
      by (simp add: Get_valid [OF assms] MethodGet_def)
  next
    case (Inr req)
    obtain resp err stored w2 where
      "Do (client s) req (Some None) w1 = ((resp, err, stored), w2)"
      by (rule Do_result)
    with n Inr show ?thesis
      by (simp add: Get_valid [OF assms] MethodGet_def)
  qed
qed

subsection \<open>The segments of the two path templates\<close>

text \<open>
  The digits of a number hold no slash, so the templates split at the slashes they
  spell out, provided the escaped identifier holds none.
\<close>

lemma decimal_digit_in_table:
  assumes "k < 10"
  shows "''0123456789'' ! k \<in> set ''0123456789''"
  using assms by (intro nth_mem) simp

lemma digits_are_decimal: "set (digits n) \<subseteq> set ''0123456789''"
proof (induction n rule: digits.induct)
  case (1 n)
  show ?case
  proof (cases "n < 10")
    case True
    then have "digits n = [''0123456789'' ! n]"
      by (simp add: digits.simps)
    with decimal_digit_in_table [OF True] show ?thesis
      by simp
  next
    case False
    then have d: "digits n = digits (n div 10) @ [''0123456789'' ! (n mod 10)]"
      by (subst digits.simps) simp
    have "n mod 10 < 10"
      by simp
    from decimal_digit_in_table [OF this] "1.IH" [OF False] d show ?thesis
      by simp
  qed
qed

lemma no_slash_in_digits: "CHR ''/'' \<notin> set (digits n)"
proof
  assume "CHR ''/'' \<in> set (digits n)"
  with digits_are_decimal [of n] have "CHR ''/'' \<in> set ''0123456789''"
    by blast
  then show False
    by simp
qed

lemma no_slash_in_fmt_d: "CHR ''/'' \<notin> set (fmt_d i)"
  by (simp add: fmt_d_def no_slash_in_digits)

lemma segments_without_slash:
  assumes "CHR ''/'' \<notin> set a"
  shows "segments a = [a]"
  using assms by (induction a) auto

lemma segments_up_to_slash:
  assumes "CHR ''/'' \<notin> set a"
  shows "segments (a @ CHR ''/'' # rest) = a # segments rest"
  using assms by (induction a) auto

lemma segments_blocks:
  "segments (''projects/'' @ escaped @ ''/merge_requests/'' @ number @ ''/blocks'' @ rest)
     = segments (''projects'' @ CHR ''/'' # escaped @ CHR ''/'' # ''merge_requests''
                   @ CHR ''/'' # number @ CHR ''/'' # ''blocks'' @ rest)"
  by simp

lemma segments_blocks_path:
  assumes "CHR ''/'' \<notin> set escaped"
  shows "segments (blocks_path escaped mergeRequest)
           = [''projects'', escaped, ''merge_requests'', fmt_d mergeRequest, ''blocks'']"
proof -
  have 1: "segments (fmt_d mergeRequest @ CHR ''/'' # ''blocks'')
             = [fmt_d mergeRequest, ''blocks'']"
    by (simp add: segments_up_to_slash [OF no_slash_in_fmt_d])
  have 2: "segments (''merge_requests'' @ CHR ''/'' # fmt_d mergeRequest @ CHR ''/'' # ''blocks'')
             = ''merge_requests'' # [fmt_d mergeRequest, ''blocks'']"
    by (subst segments_up_to_slash) (simp_all add: 1)
  have 3: "segments (escaped @ CHR ''/'' # ''merge_requests'' @ CHR ''/'' # fmt_d mergeRequest
                       @ CHR ''/'' # ''blocks'')
             = escaped # ''merge_requests'' # [fmt_d mergeRequest, ''blocks'']"
    by (subst segments_up_to_slash [OF assms]) (simp only: 2)
  have 4: "segments (''projects'' @ CHR ''/'' # escaped @ CHR ''/'' # ''merge_requests''
                       @ CHR ''/'' # fmt_d mergeRequest @ CHR ''/'' # ''blocks'')
             = ''projects'' # escaped # ''merge_requests'' # [fmt_d mergeRequest, ''blocks'']"
    by (subst segments_up_to_slash) (simp_all only: 3, simp)
  show ?thesis
    using segments_blocks [of escaped "fmt_d mergeRequest" "[]"] 4
    by (simp add: blocks_path_def)
qed

lemma segments_block_path:
  assumes "CHR ''/'' \<notin> set escaped"
  shows "segments (block_path escaped mergeRequest blockingMergeRequest)
           = [''projects'', escaped, ''merge_requests'', fmt_d mergeRequest, ''blocks'',
              fmt_d blockingMergeRequest]"
proof -
  have 0: "segments (''blocks'' @ CHR ''/'' # fmt_d blockingMergeRequest)
             = [''blocks'', fmt_d blockingMergeRequest]"
    by (subst segments_up_to_slash)
      (simp_all add: segments_without_slash [OF no_slash_in_fmt_d])
  have 1: "segments (fmt_d mergeRequest @ CHR ''/'' # ''blocks'' @ CHR ''/''
                       # fmt_d blockingMergeRequest)
             = fmt_d mergeRequest # [''blocks'', fmt_d blockingMergeRequest]"
    by (subst segments_up_to_slash [OF no_slash_in_fmt_d]) (simp only: 0)
  have 2: "segments (''merge_requests'' @ CHR ''/'' # fmt_d mergeRequest @ CHR ''/'' # ''blocks''
                       @ CHR ''/'' # fmt_d blockingMergeRequest)
             = ''merge_requests'' # fmt_d mergeRequest # [''blocks'', fmt_d blockingMergeRequest]"
    by (subst segments_up_to_slash) (simp_all only: 1, simp)
  have 3: "segments (escaped @ CHR ''/'' # ''merge_requests'' @ CHR ''/'' # fmt_d mergeRequest
                       @ CHR ''/'' # ''blocks'' @ CHR ''/'' # fmt_d blockingMergeRequest)
             = escaped # ''merge_requests'' # fmt_d mergeRequest
                 # [''blocks'', fmt_d blockingMergeRequest]"
    by (subst segments_up_to_slash [OF assms]) (simp only: 2)
  have 4: "segments (''projects'' @ CHR ''/'' # escaped @ CHR ''/'' # ''merge_requests''
                       @ CHR ''/'' # fmt_d mergeRequest @ CHR ''/'' # ''blocks'' @ CHR ''/''
                       # fmt_d blockingMergeRequest)
             = ''projects'' # escaped # ''merge_requests'' # fmt_d mergeRequest
                 # [''blocks'', fmt_d blockingMergeRequest]"
    by (subst segments_up_to_slash) (simp_all only: 3, simp)
  show ?thesis
    using segments_blocks [of escaped "fmt_d mergeRequest" "CHR ''/'' # fmt_d blockingMergeRequest"] 4
    by (simp add: block_path_def)
qed


subsection \<open>Decoding one member of an object\<close>



lemma store_Some_not_None:
  assumes "store d Some = Inr r"
  shows "r \<noteq> None"
  using assms by (cases d) (auto simp add: store_def)












subsection \<open>Decoding an array\<close>



subsection \<open>Values used in the examples\<close>

lemma fmt_d_7: "fmt_d 7 = ''7''"
  by code_simp

lemma fmt_d_3: "fmt_d 3 = ''3''"
  by code_simp

lemma escape_group_proj: "spec_PathEscape ''group/proj'' = ''group%2Fproj''"
  by (simp add: unreserved_def hex_digit_def)

lemma parse_group_proj:
  "parseID spec_package (StringID ''group/proj'') = Inr ''group/proj''"
  by (simp add: spec_package_def spec_parseID_def)

lemma escaped_group_proj:
  "PathEscape spec_package ''group/proj'' = ''group%2Fproj''"
  by (simp add: spec_package_def unreserved_def hex_digit_def)

lemma blocks_path_group_proj:
  "blocks_path ''group%2Fproj'' 7 = ''projects/group%2Fproj/merge_requests/7/blocks''"
  by (simp add: blocks_path_def fmt_d_7)

lemma block_path_group_proj:
  "block_path ''group%2Fproj'' 7 3 = ''projects/group%2Fproj/merge_requests/7/blocks/3''"
  by (simp add: block_path_def fmt_d_7 fmt_d_3)

lemma spec_client_NewRequest:
  "NewRequest (client (spec_service c server)) m u opt [] w =
     (Inr \<lparr>http_method = m, url_path = u,
            payload = map_option json_CreateMergeRequestDependencyOptions opt\<rparr>, w)"
  by (simp add: spec_service_def spec_NewRequest_def)

lemma spec_client_Do:
  "Do (client (spec_service c server)) req v w = spec_Do c server req v w"
  by (simp add: spec_service_def)



lemma fmt_d_1: "fmt_d 1 = ''1''"
  by code_simp

lemma parse_1: "parseID spec_package (IntID 1) = Inr ''1''"
  by (simp add: spec_package_def spec_parseID_def fmt_d_1)

lemma escaped_1: "PathEscape spec_package ''1'' = ''1''"
  by (simp add: spec_package_def unreserved_def)

lemma blocks_path_1: "blocks_path ''1'' 1 = ''projects/1/merge_requests/1/blocks''"
  by (simp add: blocks_path_def fmt_d_1)

subsection \<open>An identifier that cannot be normalised\<close>

text \<open>
  C1. When \<^verbatim>\<open>parseID\<close> returns an error for the project identifier, each of the three
  operations returns that error at once, with a \<^verbatim>\<open>nil\<close> response (and a \<^verbatim>\<open>nil\<close> list from the
  list operation). The list of client calls is empty: neither \<^verbatim>\<open>NewRequest\<close> nor \<^verbatim>\<open>Do\<close>
  was invoked, and the world is as it was.
\<close>

theorem invalid_identifier_returns_error_without_calls:
  assumes "parseID pkg pid = Inl e"
  shows "CreateMergeRequestDependency pkg s pid mergeRequest opts options w
           = ((None, Some e), [], w)
       \<and> DeleteMergeRequestDependency pkg s pid mergeRequest blockingMergeRequest options w
           = ((None, Some e), [], w)
       \<and> GetMergeRequestDependencies pkg s pid mergeRequest options w
           = ((None, None, Some e), [], w)"
  using assms
  by (simp add: CreateMergeRequestDependency_def DeleteMergeRequestDependency_def
      GetMergeRequestDependencies_def)

text \<open>An identifier that is neither a number nor a string, against a server that never answers.\<close>

theorem invalid_identifier_witness:
  "parseID spec_package OtherID = Inl InvalidID
   \<and> CreateMergeRequestDependency spec_package (spec_service raw_codec (\<lambda>r. None)) OtherID 7
        \<lparr>BlockingMergeRequestID = 3\<rparr> [] [] = ((None, Some InvalidID), [], [])
   \<and> DeleteMergeRequestDependency spec_package (spec_service raw_codec (\<lambda>r. None)) OtherID 7 3 [] []
        = ((None, Some InvalidID), [], [])
   \<and> GetMergeRequestDependencies spec_package (spec_service raw_codec (\<lambda>r. None)) OtherID 7 [] []
        = ((None, None, Some InvalidID), [], [])"
proof -
  have h: "parseID spec_package OtherID = Inl InvalidID"
    by (simp add: spec_package_def spec_parseID_def)
  show ?thesis
    using h invalid_identifier_returns_error_without_calls [OF h] by simp
qed

subsection \<open>The last conditional of the create and delete operations\<close>

text \<open>
  C7. The create and delete operations end with \<^verbatim>\<open>if err != nil { return resp, err }\<close>
  followed by \<^verbatim>\<open>return resp, err\<close>. On every input they return what the variants that
  return the result of the last \<^verbatim>\<open>Do\<close> unchanged return: the same response, the same
  error, the same client calls and the same world.
\<close>

theorem last_conditional_is_redundant:
  "CreateMergeRequestDependency pkg s pid mergeRequest opts options w
     = CreateMergeRequestDependency_direct pkg s pid mergeRequest opts options w
   \<and> DeleteMergeRequestDependency pkg s pid mergeRequest blockingMergeRequest options w
     = DeleteMergeRequestDependency_direct pkg s pid mergeRequest blockingMergeRequest options w"
proof (cases "parseID pkg pid")
  case (Inl e)
  then show ?thesis
    by (simp add: CreateMergeRequestDependency_def CreateMergeRequestDependency_direct_def
        DeleteMergeRequestDependency_def DeleteMergeRequestDependency_direct_def)
next
  case (Inr project)
  have "CreateMergeRequestDependency pkg s pid mergeRequest opts options w
          = CreateMergeRequestDependency_direct pkg s pid mergeRequest opts options w"
    using Inr
    by (simp add: CreateMergeRequestDependency_def CreateMergeRequestDependency_direct_def
        Let_def split: sum.split prod.split)
  moreover
  have "DeleteMergeRequestDependency pkg s pid mergeRequest blockingMergeRequest options w
          = DeleteMergeRequestDependency_direct pkg s pid mergeRequest blockingMergeRequest options w"
    using Inr
    by (simp add: DeleteMergeRequestDependency_def DeleteMergeRequestDependency_direct_def
        Let_def split: sum.split prod.split)
  ultimately show ?thesis by simp
qed

subsection \<open>A request that cannot be constructed\<close>

text \<open>
  C10. When the identifier has been normalised and \<^verbatim>\<open>NewRequest\<close> returns an error, each of
  the three operations returns that error with a \<^verbatim>\<open>nil\<close> response (and a \<^verbatim>\<open>nil\<close> list from
  the list operation). The only client call is the one to \<^verbatim>\<open>NewRequest\<close>: \<^verbatim>\<open>Do\<close> is not
  invoked, so nothing is sent.
\<close>

theorem construction_failure_returns_error_without_Do:
  assumes "parseID pkg pid = Inr project"
  shows "(NewRequest (client s) MethodPost (blocks_path (PathEscape pkg project) mergeRequest)
            (Some opts) options w = (Inl e, w1)
          \<longrightarrow> CreateMergeRequestDependency pkg s pid mergeRequest opts options w
              = ((None, Some e),
                 [NewRequest_call MethodPost (blocks_path (PathEscape pkg project) mergeRequest)
                    (Some opts) options], w1))
       \<and> (NewRequest (client s) MethodDelete
            (block_path (PathEscape pkg project) mergeRequest blockingMergeRequest)
            None options w = (Inl e, w1)
          \<longrightarrow> DeleteMergeRequestDependency pkg s pid mergeRequest blockingMergeRequest options w
              = ((None, Some e),
                 [NewRequest_call MethodDelete
                    (block_path (PathEscape pkg project) mergeRequest blockingMergeRequest)
                    None options], w1))
       \<and> (NewRequest (client s) MethodGet (blocks_path (PathEscape pkg project) mergeRequest)
            None options w = (Inl e, w1)
          \<longrightarrow> GetMergeRequestDependencies pkg s pid mergeRequest options w
              = ((None, None, Some e),
                 [NewRequest_call MethodGet (blocks_path (PathEscape pkg project) mergeRequest)
                    None options], w1))"
  by (simp add: Create_valid [OF assms] Delete_valid [OF assms] Get_valid [OF assms])

text \<open>A per-call option that fails makes the construction fail.\<close>

theorem construction_failure_witness:
  "parseID spec_package (StringID ''group/proj'') = Inr ''group/proj''
   \<and> CreateMergeRequestDependency spec_package (spec_service raw_codec (\<lambda>r. Some (200, JNull)))
         (StringID ''group/proj'') 7 \<lparr>BlockingMergeRequestID = 3\<rparr> [\<lambda>r. Inl OptionError] []
       = ((None, Some OptionError),
          [NewRequest_call ''POST'' ''projects/group%2Fproj/merge_requests/7/blocks''
             (Some \<lparr>BlockingMergeRequestID = 3\<rparr>) [\<lambda>r. Inl OptionError]], [])
   \<and> DeleteMergeRequestDependency spec_package (spec_service raw_codec (\<lambda>r. Some (200, JNull)))
         (StringID ''group/proj'') 7 3 [\<lambda>r. Inl OptionError] []
       = ((None, Some OptionError),
          [NewRequest_call ''DELETE'' ''projects/group%2Fproj/merge_requests/7/blocks/3''
             None [\<lambda>r. Inl OptionError]], [])
   \<and> GetMergeRequestDependencies spec_package (spec_service raw_codec (\<lambda>r. Some (200, JNull)))
         (StringID ''group/proj'') 7 [\<lambda>r. Inl OptionError] []
       = ((None, None, Some OptionError),
          [NewRequest_call ''GET'' ''projects/group%2Fproj/merge_requests/7/blocks''
             None [\<lambda>r. Inl OptionError]], [])"
proof -
  have n: "NewRequest (client (spec_service raw_codec (\<lambda>r. Some (200, JNull)))) m u b
             [\<lambda>r. Inl OptionError] [] = (Inl OptionError, [])" for m u b
    by (simp add: spec_service_def spec_NewRequest_def)
  show ?thesis
    using construction_failure_returns_error_without_Do [OF parse_group_proj,
        where s = "spec_service raw_codec (\<lambda>r. Some (200, JNull))"
          and options = "[\<lambda>r. Inl OptionError]" and w = "[]" and e = OptionError and ?w1.0 = "[]"
          and mergeRequest = 7 and blockingMergeRequest = 3
          and opts = "\<lparr>BlockingMergeRequestID = 3\<rparr>"]
    by (simp add: n parse_group_proj escaped_group_proj blocks_path_group_proj
        block_path_group_proj MethodPost_def MethodDelete_def MethodGet_def)
qed

subsection \<open>An error from the execution of the request\<close>

text \<open>
  C6. When \<^verbatim>\<open>Do\<close> returns an error, each operation returns exactly that error, next to the
  response \<^verbatim>\<open>Do\<close> returned (\<^verbatim>\<open>nil\<close> or not). \<^verbatim>\<open>Do\<close> was called once: there is no second
  attempt. The list operation returns a \<^verbatim>\<open>nil\<close> list whatever \<^verbatim>\<open>Do\<close> had stored in \<^verbatim>\<open>mrd\<close>
  before it failed.
\<close>

theorem Do_error_is_returned_unchanged:
  assumes "parseID pkg pid = Inr project"
  shows "(NewRequest (client s) MethodPost (blocks_path (PathEscape pkg project) mergeRequest)
            (Some opts) options w = (Inr req, w1)
          \<longrightarrow> Do (client s) req None w1 = ((resp, Some e, stored), w2)
          \<longrightarrow> CreateMergeRequestDependency pkg s pid mergeRequest opts options w
              = ((resp, Some e),
                 [NewRequest_call MethodPost (blocks_path (PathEscape pkg project) mergeRequest)
                    (Some opts) options, Do_call req None], w2))
       \<and> (NewRequest (client s) MethodDelete
            (block_path (PathEscape pkg project) mergeRequest blockingMergeRequest)
            None options w = (Inr req', w1')
          \<longrightarrow> Do (client s) req' None w1' = ((resp', Some e', stored'), w2')
          \<longrightarrow> DeleteMergeRequestDependency pkg s pid mergeRequest blockingMergeRequest options w
              = ((resp', Some e'),
                 [NewRequest_call MethodDelete
                    (block_path (PathEscape pkg project) mergeRequest blockingMergeRequest)
                    None options, Do_call req' None], w2'))
       \<and> (NewRequest (client s) MethodGet (blocks_path (PathEscape pkg project) mergeRequest)
            None options w = (Inr req'', w1'')
          \<longrightarrow> Do (client s) req'' (Some None) w1'' = ((resp'', Some e'', stored''), w2'')
          \<longrightarrow> GetMergeRequestDependencies pkg s pid mergeRequest options w
              = ((None, resp'', Some e''),
                 [NewRequest_call MethodGet (blocks_path (PathEscape pkg project) mergeRequest)
                    None options, Do_call req'' (Some None)], w2''))"
  by (simp add: Create_valid [OF assms] Delete_valid [OF assms] Get_valid [OF assms])

text \<open>
  A connection failure for the create operation, a status 404 for the delete operation
  and a body that does not decode for the list operation.
\<close>

theorem Do_error_witness:
  "parseID spec_package (StringID ''group/proj'') = Inr ''group/proj''
   \<and> fst (CreateMergeRequestDependency spec_package (spec_service raw_codec failing_server)
         (StringID ''group/proj'') 7 \<lparr>BlockingMergeRequestID = 3\<rparr> [] [])
       = (None, Some ConnectionError)
   \<and> fst (DeleteMergeRequestDependency spec_package (spec_service raw_codec failing_server)
         (StringID ''group/proj'') 7 3 [] [])
       = (Some \<lparr>StatusCode = 404\<rparr>, Some (ErrorResponse 404))
   \<and> fst (GetMergeRequestDependencies spec_package (spec_service raw_codec failing_server)
         (StringID ''group/proj'') 7 [] [])
       = (None, Some \<lparr>StatusCode = 200\<rparr>, Some (DecodeError UnmarshalTypeError))"
proof -
  let ?s = "spec_service raw_codec failing_server"
  let ?post = "\<lparr>http_method = ''POST'',
                 url_path = ''projects/group%2Fproj/merge_requests/7/blocks'',
                 payload = Some (JObject [(''blocking_merge_request_id'', JNumber 3)])\<rparr>"
  let ?delete = "\<lparr>http_method = ''DELETE'',
                   url_path = ''projects/group%2Fproj/merge_requests/7/blocks/3'',
                   payload = None\<rparr>"
  let ?get = "\<lparr>http_method = ''GET'',
                url_path = ''projects/group%2Fproj/merge_requests/7/blocks'',
                payload = None\<rparr>"
  have d1: "Do (client ?s) ?post None [] = ((None, Some ConnectionError, None), [?post])"
    by (simp add: spec_client_Do spec_Do_def failing_server_def)
  have d2: "Do (client ?s) ?delete None []
              = ((Some \<lparr>StatusCode = 404\<rparr>, Some (ErrorResponse 404), None), [?delete])"
    by (simp add: spec_client_Do spec_Do_def failing_server_def)
  have u: "unmarshal_MergeRequestDependencies raw_codec
             (JArray [JObject [(''id'', JNumber 1)], JString ''x'']) = Inl UnmarshalTypeError"
    by (simp add: unmarshal_MergeRequestDependencies_def unmarshal_slice_def
        unmarshal_MergeRequestDependency_def set_dependency_field_def unmarshal_int_def
        store_def)
  have d3: "Do (client ?s) ?get (Some None) []
              = ((Some \<lparr>StatusCode = 200\<rparr>, Some (DecodeError UnmarshalTypeError), None), [?get])"
    by (simp add: spec_client_Do spec_Do_def failing_server_def u)
  show ?thesis
    using Do_error_is_returned_unchanged [OF parse_group_proj,
        where s = ?s and options = "[]" and w = "[]" and mergeRequest = 7
          and blockingMergeRequest = 3 and opts = "\<lparr>BlockingMergeRequestID = 3\<rparr>"
          and req = ?post and ?w1.0 = "[]" and resp = None and e = ConnectionError
          and stored = None and ?w2.0 = "[?post]"
          and req' = ?delete and w1' = "[]" and resp' = "Some \<lparr>StatusCode = 404\<rparr>"
          and e' = "ErrorResponse 404" and stored' = None and w2' = "[?delete]"
          and req'' = ?get and w1'' = "[]" and resp'' = "Some \<lparr>StatusCode = 200\<rparr>"
          and e'' = "DecodeError UnmarshalTypeError" and stored'' = None and w2'' = "[?get]"]
    by (simp add: d1 d2 d3 parse_group_proj escaped_group_proj blocks_path_group_proj
        block_path_group_proj spec_client_NewRequest MethodPost_def MethodDelete_def
        MethodGet_def json_CreateMergeRequestDependencyOptions_def)
qed

subsection \<open>The request of the delete operation\<close>



subsection \<open>The request and the result of the list operation\<close>



subsection \<open>The request of the create operation\<close>




subsection \<open>Options whose identifier is zero\<close>

text \<open>
  C9. When \<^verbatim>\<open>BlockingMergeRequestID\<close> is zero, what the create operation hands to
  \<^verbatim>\<open>NewRequest\<close> serialises to the empty JSON object and to the empty query: because of
  \<^verbatim>\<open>omitempty\<close> there is no field \<^verbatim>\<open>blocking_merge_request_id\<close> at all.
\<close>

theorem zero_identifier_is_omitted:
  assumes "BlockingMergeRequestID opts = 0" and "parseID pkg pid = Inr project"
  shows "(let calls = fst (snd (CreateMergeRequestDependency pkg s pid mergeRequest opts
                                  options w))
          in request_bodies calls = [Some (JObject [])]
             \<and> request_queries calls = [[]])
         \<and> object_member ''blocking_merge_request_id''
              (json_CreateMergeRequestDependencyOptions opts) = None
         \<and> map_of (query_CreateMergeRequestDependencyOptions opts)
              ''blocking_merge_request_id'' = None"
proof -
  have j: "json_CreateMergeRequestDependencyOptions opts = JObject []"
    using assms(1) by (simp add: json_CreateMergeRequestDependencyOptions_def)
  have q: "query_CreateMergeRequestDependencyOptions opts = []"
    using assms(1) by (simp add: query_CreateMergeRequestDependencyOptions_def)
  obtain r w1 where n: "NewRequest (client s) MethodPost
      (blocks_path (PathEscape pkg project) mergeRequest) (Some opts) options w = (r, w1)"
    by (cases "NewRequest (client s) MethodPost
      (blocks_path (PathEscape pkg project) mergeRequest) (Some opts) options w")
  show ?thesis
  proof (cases r)
    case (Inl e)
    with n show ?thesis
      by (simp add: Create_valid [OF assms(2)] Let_def j q object_member_def)
  next
    case (Inr req)
    obtain resp err stored w2 where "Do (client s) req None w1 = ((resp, err, stored), w2)"
      by (rule Do_result)
    with n Inr show ?thesis
      by (simp add: Create_valid [OF assms(2)] Let_def j q object_member_def)
  qed
qed

text \<open>The create operation with the identifier 0 against the canned server.\<close>

theorem zero_identifier_witness:
  "BlockingMergeRequestID \<lparr>BlockingMergeRequestID = 0\<rparr> = 0
   \<and> parseID spec_package (StringID ''group/proj'') = Inr ''group/proj''
   \<and> request_bodies (fst (snd (CreateMergeRequestDependency spec_package
         (spec_service raw_codec fixture_server) (StringID ''group/proj'') 7
         \<lparr>BlockingMergeRequestID = 0\<rparr> [] []))) = [Some (JObject [])]
   \<and> request_queries (fst (snd (CreateMergeRequestDependency spec_package
         (spec_service raw_codec fixture_server) (StringID ''group/proj'') 7
         \<lparr>BlockingMergeRequestID = 0\<rparr> [] []))) = [[]]
   \<and> object_member ''blocking_merge_request_id''
        (json_CreateMergeRequestDependencyOptions \<lparr>BlockingMergeRequestID = 0\<rparr>) = None"
proof -
  have z: "BlockingMergeRequestID \<lparr>BlockingMergeRequestID = 0\<rparr> = 0"
    by simp
  show ?thesis
    using z parse_group_proj
      zero_identifier_is_omitted [OF z parse_group_proj,
        where s = "spec_service raw_codec fixture_server" and options = "[]" and w = "[]"
          and mergeRequest = 7]
    by (simp add: Let_def)
qed

subsection \<open>Where the escaped identifier stands in the path\<close>

text \<open>
  C5, as the claim states it, fails: the escaped identifier can occur in the path more
  than once. For the project 1 and the merge request 1 the path of the create operation
  holds \<^verbatim>\<open>1\<close> twice, as a substring and as a segment; for the project \<^verbatim>\<open>blocks\<close> the path of
  the list operation holds \<^verbatim>\<open>blocks\<close> twice.
\<close>

theorem escaped_identifier_counterexample:
  "parseID spec_package (IntID 1) = Inr ''1''
   \<and> PathEscape spec_package ''1'' = ''1''
   \<and> requested (fst (snd (CreateMergeRequestDependency spec_package
        (spec_service raw_codec fixture_server) (IntID 1) 1 \<lparr>BlockingMergeRequestID = 3\<rparr> [] [])))
      = [(''POST'', ''projects/1/merge_requests/1/blocks'')]
   \<and> occurrences ''1'' ''projects/1/merge_requests/1/blocks'' = 2
   \<and> count_list (segments ''projects/1/merge_requests/1/blocks'') ''1'' = 2
   \<and> parseID spec_package (StringID ''blocks'') = Inr ''blocks''
   \<and> PathEscape spec_package ''blocks'' = ''blocks''
   \<and> requested (fst (snd (GetMergeRequestDependencies spec_package
        (spec_service raw_codec fixture_server) (StringID ''blocks'') 7 [] [])))
      = [(''GET'', ''projects/blocks/merge_requests/7/blocks'')]
   \<and> occurrences ''blocks'' ''projects/blocks/merge_requests/7/blocks'' = 2
   \<and> count_list (segments ''projects/blocks/merge_requests/7/blocks'') ''blocks'' = 2"
proof -
  have p: "parseID spec_package (StringID ''blocks'') = Inr ''blocks''"
    by (simp add: spec_package_def spec_parseID_def)
  have e: "PathEscape spec_package ''blocks'' = ''blocks''"
    by (simp add: spec_package_def unreserved_def)
  have c: "requested (fst (snd (CreateMergeRequestDependency spec_package
        (spec_service raw_codec fixture_server) (IntID 1) 1 \<lparr>BlockingMergeRequestID = 3\<rparr> [] [])))
      = [(''POST'', ''projects/1/merge_requests/1/blocks'')]"
    by (simp add: Create_requested [OF parse_1] escaped_1 blocks_path_1)
  have g: "requested (fst (snd (GetMergeRequestDependencies spec_package
        (spec_service raw_codec fixture_server) (StringID ''blocks'') 7 [] [])))
      = [(''GET'', ''projects/blocks/merge_requests/7/blocks'')]"
    by (simp add: Get_requested [OF p] e blocks_path_def fmt_d_7)
  show ?thesis
    by (simp add: parse_1 escaped_1 p e c g)
qed

text \<open>
  C5, amended. For an identifier that \<^verbatim>\<open>parseID\<close> accepts, the path of each operation is
  \<^verbatim>\<open>projects/\<close>, the escaped identifier, \<^verbatim>\<open>/merge_requests/\<close>, the number of the merge
  request and \<^verbatim>\<open>/blocks\<close> (followed by a slash and the blocking number in the delete
  operation). When the escaped identifier holds no slash it is the whole segment that
  follows \<^verbatim>\<open>projects\<close>, and the other segments are those of the template.
\<close>

theorem escaped_identifier_follows_projects:
  assumes "parseID pkg pid = Inr project"
  shows "(let escaped = PathEscape pkg project;
              created = requested (fst (snd (CreateMergeRequestDependency pkg s pid mergeRequest
                                               opts options w)));
              deleted = requested (fst (snd (DeleteMergeRequestDependency pkg s pid mergeRequest
                                               blockingMergeRequest options w)));
              listed = requested (fst (snd (GetMergeRequestDependencies pkg s pid mergeRequest
                                              options w)))
          in created = [(''POST'', ''projects/'' @ escaped @ ''/merge_requests/''
                                     @ fmt_d mergeRequest @ ''/blocks'')]
             \<and> deleted = [(''DELETE'', ''projects/'' @ escaped @ ''/merge_requests/''
                                        @ fmt_d mergeRequest @ ''/blocks/''
                                        @ fmt_d blockingMergeRequest)]
             \<and> listed = [(''GET'', ''projects/'' @ escaped @ ''/merge_requests/''
                                    @ fmt_d mergeRequest @ ''/blocks'')]
             \<and> (CHR ''/'' \<notin> set escaped \<longrightarrow>
                  map (segments \<circ> snd) created
                    = [[''projects'', escaped, ''merge_requests'', fmt_d mergeRequest, ''blocks'']]
                  \<and> map (segments \<circ> snd) deleted
                    = [[''projects'', escaped, ''merge_requests'', fmt_d mergeRequest, ''blocks'',
                        fmt_d blockingMergeRequest]]
                  \<and> map (segments \<circ> snd) listed
                    = [[''projects'', escaped, ''merge_requests'', fmt_d mergeRequest,
                        ''blocks'']]))"
proof -
  let ?e = "PathEscape pkg project"
  have paths:
    "blocks_path ?e mergeRequest
       = ''projects/'' @ ?e @ ''/merge_requests/'' @ fmt_d mergeRequest @ ''/blocks''"
    "block_path ?e mergeRequest blockingMergeRequest
       = ''projects/'' @ ?e @ ''/merge_requests/'' @ fmt_d mergeRequest @ ''/blocks/''
           @ fmt_d blockingMergeRequest"
    by (simp_all only: blocks_path_def block_path_def)
  have segs: "CHR ''/'' \<notin> set ?e \<longrightarrow>
      segments (blocks_path ?e mergeRequest)
        = [''projects'', ?e, ''merge_requests'', fmt_d mergeRequest, ''blocks'']
      \<and> segments (block_path ?e mergeRequest blockingMergeRequest)
        = [''projects'', ?e, ''merge_requests'', fmt_d mergeRequest, ''blocks'',
           fmt_d blockingMergeRequest]"
    using segments_blocks_path [of ?e mergeRequest]
      segments_block_path [of ?e mergeRequest blockingMergeRequest]
    by blast
  show ?thesis
    unfolding Let_def Create_requested [OF assms] Delete_requested [OF assms]
      Get_requested [OF assms]
    using segs unfolding paths by simp
qed

text \<open>An identifier with a slash, which escaping replaces.\<close>

theorem escaped_identifier_witness:
  "parseID spec_package (StringID ''group/proj'') = Inr ''group/proj''
   \<and> CHR ''/'' \<notin> set (PathEscape spec_package ''group/proj'')
   \<and> map (segments \<circ> snd) (requested (fst (snd (CreateMergeRequestDependency spec_package
        (spec_service raw_codec fixture_server) (StringID ''group/proj'') 7
        \<lparr>BlockingMergeRequestID = 3\<rparr> [] []))))
      = [[''projects'', ''group%2Fproj'', ''merge_requests'', ''7'', ''blocks'']]
   \<and> map (segments \<circ> snd) (requested (fst (snd (DeleteMergeRequestDependency spec_package
        (spec_service raw_codec fixture_server) (StringID ''group/proj'') 7 3 [] []))))
      = [[''projects'', ''group%2Fproj'', ''merge_requests'', ''7'', ''blocks'', ''3'']]
   \<and> map (segments \<circ> snd) (requested (fst (snd (GetMergeRequestDependencies spec_package
        (spec_service raw_codec fixture_server) (StringID ''group/proj'') 7 [] []))))
      = [[''projects'', ''group%2Fproj'', ''merge_requests'', ''7'', ''blocks'']]"
proof -
  have n: "CHR ''/'' \<notin> set (PathEscape spec_package ''group/proj'')"
    by (simp add: escaped_group_proj)
  show ?thesis
    using n parse_group_proj
      escaped_identifier_follows_projects [OF parse_group_proj,
        where s = "spec_service raw_codec fixture_server" and options = "[]" and w = "[]"
          and mergeRequest = 7 and blockingMergeRequest = 3
          and opts = "\<lparr>BlockingMergeRequestID = 3\<rparr>"]
    by (simp add: Let_def escaped_group_proj fmt_d_7 fmt_d_3)
qed

subsection \<open>A field that is absent and a field that holds its zero value\<close>




end
